theory Spec2Isabelle
  imports Complex_Main
begin

section \<open>Conjugate-prior bookkeeping for Bayesian changepoint detection\<close>

text \<open>
  This theory embeds \<^verbatim>\<open>src/bcd/distributions.py\<close>: the base class
  \<^verbatim>\<open>Distribution\<close> and its Gaussian implementation, which keeps one set
  of Normal-Inverse-Gamma hyperparameters per hypothesised run length.

  The program is embedded twice. The first embedding computes in the real numbers:
  a finite float is a real number, and what numpy does on a division by zero or on
  the square root of a negative number (\<open>inf\<close> or \<open>nan\<close>, with a warning and no
  exception) is a value \<open>NonFinite\<close> that propagates. It states what the program
  computes when nothing overflows. The second embedding (\<open>np_Gaussian\<close>,
  \<open>np_update\<close>, \<open>np_pdf\<close>) computes in the arithmetic of numpy arrays: the
  array keeps the type of the scalar it was built from, so the arithmetic is that of
  float64 (overflow to \<open>inf\<close>, underflow to zero, signed zeros, \<open>nan\<close>), of int64
  and uint64 (wrap-around) or of Python objects (exceptions). Rounding of a float64
  result that is in range is not represented in either embedding.
\<close>

subsection \<open>Array elements\<close>

text \<open>
  An element of a float array is a finite real or a non-finite value (\<open>inf\<close>, \<open>-inf\<close>
  and \<open>nan\<close> taken together). Adding, subtracting, multiplying and squaring give a
  non-finite result as soon as an operand is non-finite.
\<close>

datatype npfloat = Finite real | NonFinite

fun nf_add :: "npfloat \<Rightarrow> npfloat \<Rightarrow> npfloat" where
  "nf_add (Finite a) (Finite b) = Finite (a + b)"
| "nf_add _ _ = NonFinite"

fun nf_sub :: "npfloat \<Rightarrow> npfloat \<Rightarrow> npfloat" where
  "nf_sub (Finite a) (Finite b) = Finite (a - b)"
| "nf_sub _ _ = NonFinite"

fun nf_mul :: "npfloat \<Rightarrow> npfloat \<Rightarrow> npfloat" where
  "nf_mul (Finite a) (Finite b) = Finite (a * b)"
| "nf_mul _ _ = NonFinite"

fun nf_sq :: "npfloat \<Rightarrow> npfloat" where
  "nf_sq (Finite a) = Finite (a ^ 2)"
| "nf_sq NonFinite = NonFinite"

text \<open>
  Every divisor of the source (\<open>kappa + 1\<close>, \<open>2 * kappa + 2\<close>, \<open>alpha * kappa\<close>) is
  built from \<open>kappa\<close> and \<open>alpha\<close> alone, whose entries are reals (see the record
  below), so the divisor of \<open>nf_div\<close> is a real. Dividing by zero gives a non-finite
  value, whatever the dividend.
\<close>

fun nf_div :: "npfloat \<Rightarrow> real \<Rightarrow> npfloat" where
  "nf_div (Finite a) d = (if d = 0 then NonFinite else Finite (a / d))"
| "nf_div NonFinite d = NonFinite"

text \<open>\<^verbatim>\<open>np.sqrt\<close>: \<open>nan\<close> on a negative number.\<close>

fun nf_sqrt :: "npfloat \<Rightarrow> npfloat" where
  "nf_sqrt (Finite a) = (if a < 0 then NonFinite else Finite (sqrt a))"
| "nf_sqrt NonFinite = NonFinite"

text \<open>A finite and strictly positive element.\<close>

fun nf_pos :: "npfloat \<Rightarrow> bool" where
  "nf_pos (Finite a) = (0 < a)"
| "nf_pos NonFinite = False"

subsection \<open>Errors and one-dimensional broadcasting\<close>

text \<open>
  \<open>ValueError\<close> is what numpy raises when two operands cannot be broadcast to a common
  shape; \<open>NotImplementedError\<close> is what the base class raises.
\<close>

datatype py_error = ValueError | NotImplementedError | TypeError | OverflowError | ZeroDivisionError

definition py_bind :: "py_error + 'a \<Rightarrow> ('a \<Rightarrow> py_error + 'b) \<Rightarrow> py_error + 'b" where
  "py_bind m f = (case m of Inl e \<Rightarrow> Inl e | Inr v \<Rightarrow> f v)"

text \<open>
  Two one-dimensional arrays combine elementwise when their lengths agree or one of
  them has length 1 (its only element is then repeated); otherwise the operation raises.
\<close>

definition np_zip :: "'a list \<Rightarrow> 'b list \<Rightarrow> py_error + ('a \<times> 'b) list" where
  "np_zip xs ys =
     (if length xs = length ys then Inr (zip xs ys)
      else if length xs = 1 then Inr (map (\<lambda>y. (hd xs, y)) ys)
      else if length ys = 1 then Inr (map (\<lambda>x. (x, hd ys)) xs)
      else Inl ValueError)"

definition np_binop :: "('a \<Rightarrow> 'b \<Rightarrow> 'c) \<Rightarrow> 'a list \<Rightarrow> 'b list \<Rightarrow> py_error + 'c list" where
  "np_binop f xs ys = py_bind (np_zip xs ys) (\<lambda>ps. Inr (map (\<lambda>(x, y). f x y) ps))"

subsection \<open>The base class\<close>

text \<open>
  \<^verbatim>\<open>Distribution.pdf\<close> and \<^verbatim>\<open>Distribution.update\<close> have one statement each:
  \<^verbatim>\<open>raise NotImplementedError\<close>. The instance and the observation are not looked at.
\<close>

definition Distribution_pdf :: "'self \<Rightarrow> 'obs \<Rightarrow> py_error + 'r" where
  "Distribution_pdf self observation = Inl NotImplementedError"

definition Distribution_update :: "'self \<Rightarrow> 'obs \<Rightarrow> py_error + 'self" where
  "Distribution_update self observation = Inl NotImplementedError"

subsection \<open>The Gaussian family\<close>

text \<open>
  The eight attributes of a \<^verbatim>\<open>Gaussian\<close> instance. \<open>kappa\<close> and \<open>alpha\<close> are only
  ever built from the real priors by adding the constants 1 and 0.5, so their entries
  are reals; \<open>mu\<close> and \<open>beta\<close> are results of divisions and may hold non-finite values.
\<close>

record gaussian =
  kappa0 :: "real list"
  mu0 :: "npfloat list"
  alpha0 :: "real list"
  beta0 :: "npfloat list"
  kappa :: "real list"
  mu :: "npfloat list"
  alpha :: "real list"
  beta :: "npfloat list"

text \<open>
  \<^verbatim>\<open>__init__\<close>: each prior is wrapped in a one-element array, bound both to the
  prior attribute and to the current one. Nothing is validated. The source binds one
  array object to both attributes; since no method writes into an array (every
  operation below builds a new one and the attributes are rebound), the sharing cannot
  be observed and the attributes hold values.
\<close>

definition Gaussian :: "real \<Rightarrow> real \<Rightarrow> real \<Rightarrow> real \<Rightarrow> gaussian" where
  "Gaussian k m a b =
     \<lparr>kappa0 = [k], mu0 = [Finite m], alpha0 = [a], beta0 = [Finite b],
      kappa = [k], mu = [Finite m], alpha = [a], beta = [Finite b]\<rparr>"

text \<open>
  \<^verbatim>\<open>update\<close>: the four new sequences are computed from the current ones, in the
  order of the source, and only then are the four attributes rebound to the prior
  array followed by the new sequence (\<^verbatim>\<open>np.concatenate\<close>). An operation on an
  array and a scalar maps over the array; an operation on two arrays broadcasts and
  may raise, in which case no attribute has been assigned yet.
\<close>

definition update :: "gaussian \<Rightarrow> real \<Rightarrow> py_error + gaussian" where
  "update self observation =
     (let new_kappa = map (\<lambda>k. k + 1) (kappa self) in
      py_bind (np_binop (\<lambda>k m. nf_mul (Finite k) m) (kappa self) (mu self)) (\<lambda>kappa_mu.
      py_bind (np_binop nf_div (map (\<lambda>v. nf_add v (Finite observation)) kappa_mu)
                 (map (\<lambda>k. k + 1) (kappa self))) (\<lambda>new_mu.
      let new_alpha = map (\<lambda>a. a + 0.5) (alpha self) in
      py_bind (np_binop (\<lambda>k d. nf_mul (Finite k) d) (kappa self)
                 (map (\<lambda>m. nf_sq (nf_sub (Finite observation) m)) (mu self))) (\<lambda>kappa_dev.
      py_bind (np_binop nf_div kappa_dev (map (\<lambda>k. 2 * k + 2) (kappa self))) (\<lambda>quot.
      py_bind (np_binop nf_add (beta self) quot) (\<lambda>new_beta.
      Inr (self\<lparr>kappa := kappa0 self @ new_kappa,
                mu := mu0 self @ new_mu,
                alpha := alpha0 self @ new_alpha,
                beta := beta0 self @ new_beta\<rparr>)))))))"

text \<open>
  \<^verbatim>\<open>pdf\<close>: the predictive variance, then \<^verbatim>\<open>scipy.stats.t.pdf\<close>. The density
  is a library function, not code of this repository: it is the parameter \<open>t_pdf\<close>,
  taking the point, the degrees of freedom, the location and the scale. The library
  broadcasts its array arguments against each other like any elementwise operation.
  No attribute is assigned.
\<close>

definition variance :: "gaussian \<Rightarrow> py_error + npfloat list" where
  "variance self =
     py_bind (np_binop (\<lambda>b k. nf_mul b (Finite k)) (beta self)
                (map (\<lambda>k. k + 1) (kappa self))) (\<lambda>num.
     py_bind (np_binop (\<lambda>a k. a * k) (alpha self) (kappa self)) (\<lambda>den.
     np_binop nf_div num den))"

definition pdf ::
  "(real \<Rightarrow> real \<Rightarrow> npfloat \<Rightarrow> npfloat \<Rightarrow> 'd) \<Rightarrow> gaussian \<Rightarrow> real \<Rightarrow> py_error + 'd list" where
  "pdf t_pdf self observation =
     py_bind (variance self) (\<lambda>var.
     py_bind (np_zip (map (\<lambda>a. 2 * a) (alpha self)) (mu self)) (\<lambda>df_loc.
     py_bind (np_zip df_loc (map nf_sqrt var)) (\<lambda>args.
     Inr (map (\<lambda>((df, loc), scale). t_pdf observation df loc scale) args))))"

subsection \<open>Sequences of calls\<close>

text \<open>Feeding observations one at a time; the first exception ends the run.\<close>

fun updates :: "gaussian \<Rightarrow> real list \<Rightarrow> py_error + gaussian" where
  "updates self [] = Inr self"
| "updates self (x # xs) = py_bind (update self x) (\<lambda>self'. updates self' xs)"

text \<open>
  A method call on an instance gives a returned value and the instance afterwards.
  \<^verbatim>\<open>pdf\<close> returns the densities and assigns nothing; \<^verbatim>\<open>update\<close> returns
  \<^verbatim>\<open>None\<close> and rebinds the four current attributes.
\<close>

datatype call = Pdf real | Update real

datatype 'd reply = Densities "'d list" | NoneReply

fun invoke ::
  "(real \<Rightarrow> real \<Rightarrow> npfloat \<Rightarrow> npfloat \<Rightarrow> 'd) \<Rightarrow> gaussian \<Rightarrow> call \<Rightarrow> py_error + ('d reply \<times> gaussian)" where
  "invoke t_pdf self (Pdf x) = py_bind (pdf t_pdf self x) (\<lambda>r. Inr (Densities r, self))"
| "invoke t_pdf self (Update x) = py_bind (update self x) (\<lambda>self'. Inr (NoneReply, self'))"

fun run ::
  "(real \<Rightarrow> real \<Rightarrow> npfloat \<Rightarrow> npfloat \<Rightarrow> 'd) \<Rightarrow> gaussian \<Rightarrow> call list \<Rightarrow> py_error + ('d reply list \<times> gaussian)" where
  "run t_pdf self [] = Inr ([], self)"
| "run t_pdf self (c # cs) =
     py_bind (invoke t_pdf self c) (\<lambda>(r, self').
     py_bind (run t_pdf self' cs) (\<lambda>(rs, self'').
     Inr (r # rs, self'')))"

text \<open>The observations of the \<^verbatim>\<open>update\<close> calls of a trace, in order.\<close>

fun observations :: "call list \<Rightarrow> real list" where
  "observations [] = []"
| "observations (Pdf x # cs) = observations cs"
| "observations (Update x # cs) = x # observations cs"

subsection \<open>Shape of a state\<close>

text \<open>The four current sequences have one common length.\<close>

definition same_length :: "gaussian \<Rightarrow> bool" where
  "same_length s \<longleftrightarrow>
     length (mu s) = length (kappa s) \<and> length (alpha s) = length (kappa s) \<and>
     length (beta s) = length (kappa s)"

text \<open>
  The invariant of an instance built with priors \<open>k\<close>, \<open>m\<close>, \<open>a\<close>, \<open>b\<close> and updated
  \<open>t\<close> times: the prior attributes are the one-element arrays of construction, the
  current sequences have length \<open>t + 1\<close> and start with the prior.
\<close>

definition tracks :: "real \<Rightarrow> real \<Rightarrow> real \<Rightarrow> real \<Rightarrow> nat \<Rightarrow> gaussian \<Rightarrow> bool" where
  "tracks k m a b t s \<longleftrightarrow>
     kappa0 s = [k] \<and> mu0 s = [Finite m] \<and> alpha0 s = [a] \<and> beta0 s = [Finite b] \<and>
     length (kappa s) = Suc t \<and> same_length s \<and>
     hd (kappa s) = k \<and> hd (mu s) = Finite m \<and> hd (alpha s) = a \<and> hd (beta s) = Finite b"

subsection \<open>A density for closed examples\<close>

text \<open>
  Student's t density needs the Gamma function for its normalising constant. Where an
  example needs a concrete density, this one is used: the density without that
  constant, \<open>(1 + z\<^sup>2 / df) powr (- (df + 1) / 2) / scale\<close> with
  \<open>z = (x - loc) / scale\<close>, and \<open>nan\<close> outside \<open>df > 0\<close>, \<open>scale > 0\<close>. It is not
  part of the program.
\<close>

definition t_kernel :: "real \<Rightarrow> real \<Rightarrow> npfloat \<Rightarrow> npfloat \<Rightarrow> npfloat" where
  "t_kernel x df loc scale =
     (case (loc, scale) of
        (Finite l, Finite sc) \<Rightarrow>
          if 0 < df \<and> 0 < sc
          then Finite ((1 + ((x - l) / sc)\<^sup>2 / df) powr (- (df + 1) / 2) / sc)
          else NonFinite
      | _ \<Rightarrow> NonFinite)"

section \<open>The program in the arithmetic of numpy\<close>

subsection \<open>float64\<close>

datatype f64 = Num real | NegZero | PInf | NInf | NaN

definition f64_over :: real where
  "f64_over = 2 ^ 1024 - 2 ^ 970"

definition f64_under :: real where
  "f64_under = 1 / 2 ^ 1075"

definition f64_round :: "real \<Rightarrow> f64" where
  "f64_round r =
     (if f64_over \<le> r then PInf
      else if r \<le> - f64_over then NInf
      else if \<bar>r\<bar> \<le> f64_under then (if r < 0 then NegZero else Num 0)
      else Num r)"

fun f64_real :: "f64 \<Rightarrow> real" where
  "f64_real (Num r) = r"
| "f64_real _ = 0"

fun f64_finite :: "f64 \<Rightarrow> bool" where
  "f64_finite (Num r) = True"
| "f64_finite NegZero = True"
| "f64_finite _ = False"

fun f64_inf :: "f64 \<Rightarrow> bool" where
  "f64_inf PInf = True"
| "f64_inf NInf = True"
| "f64_inf _ = False"

fun f64_sign :: "f64 \<Rightarrow> bool" where
  "f64_sign (Num r) = (r < 0)"
| "f64_sign NegZero = True"
| "f64_sign PInf = False"
| "f64_sign NInf = True"
| "f64_sign NaN = False"

definition f64_zero :: "f64 \<Rightarrow> bool" where
  "f64_zero v \<longleftrightarrow> f64_finite v \<and> f64_real v = 0"

definition signed_zero :: "bool \<Rightarrow> f64" where
  "signed_zero neg = (if neg then NegZero else Num 0)"

definition signed_inf :: "bool \<Rightarrow> f64" where
  "signed_inf neg = (if neg then NInf else PInf)"

definition f64_add :: "f64 \<Rightarrow> f64 \<Rightarrow> f64" where
  "f64_add a b =
     (if a = NaN \<or> b = NaN then NaN
      else if f64_inf a \<and> f64_inf b then (if a = b then a else NaN)
      else if f64_inf a then a
      else if f64_inf b then b
      else if a = NegZero \<and> b = NegZero then NegZero
      else f64_round (f64_real a + f64_real b))"

fun f64_neg :: "f64 \<Rightarrow> f64" where
  "f64_neg (Num r) = (if r = 0 then NegZero else Num (- r))"
| "f64_neg NegZero = Num 0"
| "f64_neg PInf = NInf"
| "f64_neg NInf = PInf"
| "f64_neg NaN = NaN"

definition f64_sub :: "f64 \<Rightarrow> f64 \<Rightarrow> f64" where
  "f64_sub a b = f64_add a (f64_neg b)"

definition f64_mul :: "f64 \<Rightarrow> f64 \<Rightarrow> f64" where
  "f64_mul a b =
     (if a = NaN \<or> b = NaN then NaN
      else if f64_inf a \<or> f64_inf b
        then (if f64_zero a \<or> f64_zero b then NaN else signed_inf (f64_sign a \<noteq> f64_sign b))
      else if f64_real a * f64_real b = 0 then signed_zero (f64_sign a \<noteq> f64_sign b)
      else f64_round (f64_real a * f64_real b))"

definition f64_div :: "f64 \<Rightarrow> f64 \<Rightarrow> f64" where
  "f64_div a b =
     (if a = NaN \<or> b = NaN then NaN
      else if f64_inf a then (if f64_inf b then NaN else signed_inf (f64_sign a \<noteq> f64_sign b))
      else if f64_inf b then signed_zero (f64_sign a \<noteq> f64_sign b)
      else if f64_zero b then (if f64_zero a then NaN else signed_inf (f64_sign a \<noteq> f64_sign b))
      else if f64_zero a then signed_zero (f64_sign a \<noteq> f64_sign b)
      else f64_round (f64_real a / f64_real b))"

fun f64_sqrt :: "f64 \<Rightarrow> f64" where
  "f64_sqrt (Num r) = (if r < 0 then NaN else Num (sqrt r))"
| "f64_sqrt NegZero = NegZero"
| "f64_sqrt PInf = PInf"
| "f64_sqrt NInf = NaN"
| "f64_sqrt NaN = NaN"

subsection \<open>Python numbers\<close>

datatype pynum = PyInt int | PyFloat f64

definition float_of_int :: "int \<Rightarrow> py_error + f64" where
  "float_of_int n = (if f64_over \<le> \<bar>real_of_int n\<bar> then Inl OverflowError else Inr (Num (real_of_int n)))"

fun py_float :: "pynum \<Rightarrow> py_error + f64" where
  "py_float (PyInt n) = float_of_int n"
| "py_float (PyFloat v) = Inr v"

datatype arith = Add | Sub | Mul | Div

fun int_arith :: "arith \<Rightarrow> int \<Rightarrow> int \<Rightarrow> int" where
  "int_arith Add x y = x + y"
| "int_arith Sub x y = x - y"
| "int_arith Mul x y = x * y"
| "int_arith Div x y = 0"

fun f64_arith :: "arith \<Rightarrow> f64 \<Rightarrow> f64 \<Rightarrow> f64" where
  "f64_arith Add = f64_add"
| "f64_arith Sub = f64_sub"
| "f64_arith Mul = f64_mul"
| "f64_arith Div = f64_div"

definition py_truediv :: "pynum \<Rightarrow> pynum \<Rightarrow> py_error + pynum" where
  "py_truediv x y =
     (case (x, y) of
        (PyInt a, PyInt b) \<Rightarrow>
          if b = 0 then Inl ZeroDivisionError
          else if f64_over \<le> \<bar>real_of_int a / real_of_int b\<bar> then Inl OverflowError
          else if a = 0 then Inr (PyFloat (signed_zero (b < 0)))
          else Inr (PyFloat (f64_round (real_of_int a / real_of_int b)))
      | _ \<Rightarrow>
          py_bind (py_float x) (\<lambda>u. py_bind (py_float y) (\<lambda>v.
            if f64_zero v then Inl ZeroDivisionError else Inr (PyFloat (f64_div u v)))))"

definition py_arith :: "arith \<Rightarrow> pynum \<Rightarrow> pynum \<Rightarrow> py_error + pynum" where
  "py_arith op x y =
     (if op = Div then py_truediv x y
      else case (x, y) of
        (PyInt a, PyInt b) \<Rightarrow> Inr (PyInt (int_arith op a b))
      | _ \<Rightarrow> py_bind (py_float x) (\<lambda>u. py_bind (py_float y) (\<lambda>v. Inr (PyFloat (f64_arith op u v)))))"

fun py_pow2 :: "pynum \<Rightarrow> py_error + pynum" where
  "py_pow2 (PyInt a) = Inr (PyInt (a * a))"
| "py_pow2 (PyFloat v) =
     (if f64_finite v \<and> f64_inf (f64_mul v v) then Inl OverflowError else Inr (PyFloat (f64_mul v v)))"

fun sequence_err :: "(py_error + 'a) list \<Rightarrow> py_error + 'a list" where
  "sequence_err [] = Inr []"
| "sequence_err (r # rs) = py_bind r (\<lambda>v. py_bind (sequence_err rs) (\<lambda>vs. Inr (v # vs)))"

subsection \<open>arrays\<close>

datatype dtype = Int64 | UInt64 | Float64 | Object

datatype ndarray = I64 "int list" | U64 "int list" | F64 "f64 list" | Obj "pynum list"

definition wrap_i64 :: "int \<Rightarrow> int" where
  "wrap_i64 n = (n + 2 ^ 63) mod 2 ^ 64 - 2 ^ 63"

definition wrap_u64 :: "int \<Rightarrow> int" where
  "wrap_u64 n = n mod 2 ^ 64"

fun dtype_of :: "ndarray \<Rightarrow> dtype" where
  "dtype_of (I64 xs) = Int64"
| "dtype_of (U64 xs) = UInt64"
| "dtype_of (F64 xs) = Float64"
| "dtype_of (Obj xs) = Object"

fun size_of :: "ndarray \<Rightarrow> nat" where
  "size_of (I64 xs) = length xs"
| "size_of (U64 xs) = length xs"
| "size_of (F64 xs) = length xs"
| "size_of (Obj xs) = length xs"

fun promote :: "dtype \<Rightarrow> dtype \<Rightarrow> dtype" where
  "promote Object _ = Object"
| "promote _ Object = Object"
| "promote Float64 _ = Float64"
| "promote _ Float64 = Float64"
| "promote Int64 Int64 = Int64"
| "promote UInt64 UInt64 = UInt64"
| "promote Int64 UInt64 = Float64"
| "promote UInt64 Int64 = Float64"

fun int_items :: "ndarray \<Rightarrow> int list" where
  "int_items (I64 xs) = xs"
| "int_items (U64 xs) = xs"
| "int_items _ = []"

fun f64_items :: "ndarray \<Rightarrow> f64 list" where
  "f64_items (I64 xs) = map (\<lambda>n. Num (real_of_int n)) xs"
| "f64_items (U64 xs) = map (\<lambda>n. Num (real_of_int n)) xs"
| "f64_items (F64 xs) = xs"
| "f64_items (Obj xs) = []"

fun tolist :: "ndarray \<Rightarrow> pynum list" where
  "tolist (I64 xs) = map PyInt xs"
| "tolist (U64 xs) = map PyInt xs"
| "tolist (F64 xs) = map PyFloat xs"
| "tolist (Obj xs) = xs"

definition np_array1 :: "pynum \<Rightarrow> ndarray" where
  "np_array1 v =
     (case v of
        PyFloat x \<Rightarrow> F64 [x]
      | PyInt n \<Rightarrow>
          if - (2 ^ 63) \<le> n \<and> n < 2 ^ 63 then I64 [n]
          else if 2 ^ 63 \<le> n \<and> n < 2 ^ 64 then U64 [n]
          else Obj [PyInt n])"

definition np_concatenate :: "ndarray \<Rightarrow> ndarray \<Rightarrow> ndarray" where
  "np_concatenate a b =
     (case promote (dtype_of a) (dtype_of b) of
        Int64 \<Rightarrow> I64 (int_items a @ int_items b)
      | UInt64 \<Rightarrow> U64 (int_items a @ int_items b)
      | Float64 \<Rightarrow> F64 (f64_items a @ f64_items b)
      | Object \<Rightarrow> Obj (tolist a @ tolist b))"

datatype operand = Arr ndarray | Scal pynum | Str string

fun operand_dtype :: "dtype \<Rightarrow> operand \<Rightarrow> py_error + dtype" where
  "operand_dtype d (Arr a) = Inr (promote d (dtype_of a))"
| "operand_dtype Object (Scal v) = Inr Object"
| "operand_dtype Object (Str s) = Inr Object"
| "operand_dtype d (Str s) = Inl TypeError"
| "operand_dtype Float64 (Scal (PyInt c)) =
     (if f64_over \<le> \<bar>real_of_int c\<bar> then Inl OverflowError else Inr Float64)"
| "operand_dtype Int64 (Scal (PyInt c)) =
     (if - (2 ^ 63) \<le> c \<and> c < 2 ^ 63 then Inr Int64 else Inl OverflowError)"
| "operand_dtype UInt64 (Scal (PyInt c)) =
     (if 0 \<le> c \<and> c < 2 ^ 64 then Inr UInt64 else Inl OverflowError)"
| "operand_dtype d (Scal (PyFloat x)) = Inr Float64"

fun operand_ints :: "operand \<Rightarrow> int list" where
  "operand_ints (Arr a) = int_items a"
| "operand_ints (Scal (PyInt c)) = [c]"
| "operand_ints _ = []"

fun operand_f64s :: "operand \<Rightarrow> f64 list" where
  "operand_f64s (Arr a) = f64_items a"
| "operand_f64s (Scal (PyInt c)) = [Num (real_of_int c)]"
| "operand_f64s (Scal (PyFloat x)) = [x]"
| "operand_f64s (Str s) = []"

fun operand_objects :: "operand \<Rightarrow> pynum option list" where
  "operand_objects (Arr a) = map Some (tolist a)"
| "operand_objects (Scal v) = [Some v]"
| "operand_objects (Str s) = [None]"

definition object_arith :: "arith \<Rightarrow> pynum option \<Rightarrow> pynum option \<Rightarrow> py_error + pynum" where
  "object_arith op x y =
     (case (x, y) of (Some u, Some v) \<Rightarrow> py_arith op u v | _ \<Rightarrow> Inl TypeError)"

definition elementwise :: "arith \<Rightarrow> dtype \<Rightarrow> operand \<Rightarrow> operand \<Rightarrow> py_error + ndarray" where
  "elementwise op d x y =
     (case (if op = Div \<and> (d = Int64 \<or> d = UInt64) then Float64 else d) of
        Int64 \<Rightarrow> py_bind (np_zip (operand_ints x) (operand_ints y))
                   (\<lambda>ps. Inr (I64 (map (\<lambda>(u, v). wrap_i64 (int_arith op u v)) ps)))
      | UInt64 \<Rightarrow> py_bind (np_zip (operand_ints x) (operand_ints y))
                    (\<lambda>ps. Inr (U64 (map (\<lambda>(u, v). wrap_u64 (int_arith op u v)) ps)))
      | Float64 \<Rightarrow> py_bind (np_zip (operand_f64s x) (operand_f64s y))
                     (\<lambda>ps. Inr (F64 (map (\<lambda>(u, v). f64_arith op u v) ps)))
      | Object \<Rightarrow> py_bind (np_zip (operand_objects x) (operand_objects y))
                    (\<lambda>ps. py_bind (sequence_err (map (\<lambda>(u, v). object_arith op u v) ps))
                       (\<lambda>vs. Inr (Obj vs))))"

definition np_arith :: "arith \<Rightarrow> ndarray \<Rightarrow> operand \<Rightarrow> py_error + ndarray" where
  "np_arith op a y = py_bind (operand_dtype (dtype_of a) y) (\<lambda>d. elementwise op d (Arr a) y)"

definition np_rarith :: "arith \<Rightarrow> operand \<Rightarrow> ndarray \<Rightarrow> py_error + ndarray" where
  "np_rarith op x a = py_bind (operand_dtype (dtype_of a) x) (\<lambda>d. elementwise op d x (Arr a))"

fun np_square :: "ndarray \<Rightarrow> py_error + ndarray" where
  "np_square (I64 xs) = Inr (I64 (map (\<lambda>x. wrap_i64 (x * x)) xs))"
| "np_square (U64 xs) = Inr (U64 (map (\<lambda>x. wrap_u64 (x * x)) xs))"
| "np_square (F64 xs) = Inr (F64 (map (\<lambda>x. f64_mul x x) xs))"
| "np_square (Obj xs) = py_bind (sequence_err (map py_pow2 xs)) (\<lambda>vs. Inr (Obj vs))"

fun np_sqrt :: "ndarray \<Rightarrow> py_error + ndarray" where
  "np_sqrt (Obj xs) = (if xs = [] then Inr (Obj []) else Inl TypeError)"
| "np_sqrt a = Inr (F64 (map f64_sqrt (f64_items a)))"

datatype observation = ObsNum pynum | ObsList "f64 list" | ObsStr string

fun as_operand :: "observation \<Rightarrow> operand" where
  "as_operand (ObsNum v) = Scal v"
| "as_operand (ObsList xs) = Arr (F64 xs)"
| "as_operand (ObsStr s) = Str s"

record np_gaussian =
  np_kappa0 :: ndarray
  np_mu0 :: ndarray
  np_alpha0 :: ndarray
  np_beta0 :: ndarray
  np_kappa :: ndarray
  np_mu :: ndarray
  np_alpha :: ndarray
  np_beta :: ndarray

definition np_Gaussian :: "pynum \<Rightarrow> pynum \<Rightarrow> pynum \<Rightarrow> pynum \<Rightarrow> np_gaussian" where
  "np_Gaussian k m a b =
     \<lparr>np_kappa0 = np_array1 k, np_mu0 = np_array1 m, np_alpha0 = np_array1 a, np_beta0 = np_array1 b,
      np_kappa = np_array1 k, np_mu = np_array1 m, np_alpha = np_array1 a, np_beta = np_array1 b\<rparr>"

definition np_update :: "np_gaussian \<Rightarrow> observation \<Rightarrow> py_error + np_gaussian" where
  "np_update self observation =
     py_bind (np_arith Add (np_kappa self) (Scal (PyInt 1))) (\<lambda>new_kappa.
     py_bind (np_arith Mul (np_kappa self) (Arr (np_mu self))) (\<lambda>kappa_mu.
     py_bind (np_arith Add kappa_mu (as_operand observation)) (\<lambda>numer.
     py_bind (np_arith Add (np_kappa self) (Scal (PyInt 1))) (\<lambda>kappa_1.
     py_bind (np_arith Div numer (Arr kappa_1)) (\<lambda>new_mu.
     py_bind (np_arith Add (np_alpha self) (Scal (PyFloat (Num 0.5)))) (\<lambda>new_alpha.
     py_bind (np_rarith Sub (as_operand observation) (np_mu self)) (\<lambda>dev.
     py_bind (np_square dev) (\<lambda>dev2.
     py_bind (np_arith Mul (np_kappa self) (Arr dev2)) (\<lambda>kappa_dev2.
     py_bind (np_rarith Mul (Scal (PyInt 2)) (np_kappa self)) (\<lambda>kappa_2.
     py_bind (np_arith Add kappa_2 (Scal (PyInt 2))) (\<lambda>denom.
     py_bind (np_arith Div kappa_dev2 (Arr denom)) (\<lambda>quot.
     py_bind (np_arith Add (np_beta self) (Arr quot)) (\<lambda>new_beta.
     Inr (self\<lparr>np_kappa := np_concatenate (np_kappa0 self) new_kappa,
                np_mu := np_concatenate (np_mu0 self) new_mu,
                np_alpha := np_concatenate (np_alpha0 self) new_alpha,
                np_beta := np_concatenate (np_beta0 self) new_beta\<rparr>))))))))))))))"

definition np_variance :: "np_gaussian \<Rightarrow> py_error + ndarray" where
  "np_variance self =
     py_bind (np_arith Add (np_kappa self) (Scal (PyInt 1))) (\<lambda>kappa_1.
     py_bind (np_arith Mul (np_beta self) (Arr kappa_1)) (\<lambda>numer.
     py_bind (np_arith Mul (np_alpha self) (Arr (np_kappa self))) (\<lambda>denom.
     np_arith Div numer (Arr denom))))"

fun observation_items :: "observation \<Rightarrow> py_error + pynum list" where
  "observation_items (ObsNum v) = Inr [v]"
| "observation_items (ObsList xs) = Inr (map PyFloat xs)"
| "observation_items (ObsStr s) = Inl TypeError"

definition stats_t_pdf ::
  "(pynum \<Rightarrow> pynum \<Rightarrow> pynum \<Rightarrow> pynum \<Rightarrow> 'd) \<Rightarrow> observation \<Rightarrow> ndarray \<Rightarrow> ndarray \<Rightarrow> ndarray
     \<Rightarrow> py_error + 'd list" where
  "stats_t_pdf t_pdf x df loc scale =
     py_bind (observation_items x) (\<lambda>xs.
     py_bind (np_zip xs (tolist df)) (\<lambda>x_df.
     py_bind (np_zip x_df (tolist loc)) (\<lambda>x_df_loc.
     py_bind (np_zip x_df_loc (tolist scale)) (\<lambda>args.
     Inr (map (\<lambda>(((x, df), loc), scale). t_pdf x df loc scale) args)))))"

definition np_pdf ::
  "(pynum \<Rightarrow> pynum \<Rightarrow> pynum \<Rightarrow> pynum \<Rightarrow> 'd) \<Rightarrow> np_gaussian \<Rightarrow> observation \<Rightarrow> py_error + 'd list" where
  "np_pdf t_pdf self observation =
     py_bind (np_variance self) (\<lambda>variance.
     py_bind (np_rarith Mul (Scal (PyInt 2)) (np_alpha self)) (\<lambda>df.
     py_bind (np_sqrt variance) (\<lambda>scale.
     stats_t_pdf t_pdf observation df (np_mu self) scale)))"

fun np_updates :: "np_gaussian \<Rightarrow> observation list \<Rightarrow> py_error + np_gaussian" where
  "np_updates self [] = Inr self"
| "np_updates self (x # xs) = py_bind (np_update self x) (\<lambda>self'. np_updates self' xs)"

definition formula_mu :: "f64 \<Rightarrow> f64 \<Rightarrow> f64 \<Rightarrow> f64" where
  "formula_mu x k m = f64_div (f64_add (f64_mul k m) x) (f64_add k (Num 1))"

definition formula_beta :: "f64 \<Rightarrow> f64 \<Rightarrow> f64 \<Rightarrow> f64 \<Rightarrow> f64" where
  "formula_beta x k m b =
     f64_add b (f64_div (f64_mul k (f64_mul (f64_sub x m) (f64_sub x m)))
                        (f64_add (f64_mul (Num 2) k) (Num 2)))"

definition formula_variance :: "f64 \<Rightarrow> f64 \<Rightarrow> f64 \<Rightarrow> f64" where
  "formula_variance k a b = f64_div (f64_mul b (f64_add k (Num 1))) (f64_mul a k)"

fun f64_val :: "f64 \<Rightarrow> real option" where
  "f64_val (Num r) = Some r"
| "f64_val NegZero = Some 0"
| "f64_val _ = None"

definition f64_exact :: "real \<Rightarrow> bool" where
  "f64_exact r \<longleftrightarrow> \<bar>r\<bar> < f64_over \<and> (r = 0 \<or> f64_under < \<bar>r\<bar>)"

definition exact_mu :: "real \<Rightarrow> real \<Rightarrow> real \<Rightarrow> bool" where
  "exact_mu x k m \<longleftrightarrow>
     f64_exact (k * m) \<and> f64_exact (k * m + x) \<and> f64_exact (k + 1) \<and> k + 1 \<noteq> 0 \<and>
     f64_exact ((k * m + x) / (k + 1))"

definition exact_beta :: "real \<Rightarrow> real \<Rightarrow> real \<Rightarrow> real \<Rightarrow> bool" where
  "exact_beta x k m b \<longleftrightarrow>
     f64_exact (x - m) \<and> f64_exact ((x - m)\<^sup>2) \<and> f64_exact (k * (x - m)\<^sup>2) \<and>
     f64_exact (2 * k) \<and> f64_exact (2 * k + 2) \<and> 2 * k + 2 \<noteq> 0 \<and>
     f64_exact (k * (x - m)\<^sup>2 / (2 * k + 2)) \<and>
     f64_exact (b + k * (x - m)\<^sup>2 / (2 * k + 2))"

definition exact_variance :: "real \<Rightarrow> real \<Rightarrow> real \<Rightarrow> bool" where
  "exact_variance k a b \<longleftrightarrow>
     f64_exact (k + 1) \<and> f64_exact (b * (k + 1)) \<and> f64_exact (a * k) \<and> a * k \<noteq> 0 \<and>
     f64_exact (b * (k + 1) / (a * k))"

definition float_state :: "np_gaussian \<Rightarrow> bool" where
  "float_state s \<longleftrightarrow>
     dtype_of (np_kappa0 s) = Float64 \<and> dtype_of (np_mu0 s) = Float64 \<and>
     dtype_of (np_alpha0 s) = Float64 \<and> dtype_of (np_beta0 s) = Float64 \<and>
     dtype_of (np_kappa s) = Float64 \<and> dtype_of (np_mu s) = Float64 \<and>
     dtype_of (np_alpha s) = Float64 \<and> dtype_of (np_beta s) = Float64 \<and>
     size_of (np_mu s) = size_of (np_kappa s) \<and> size_of (np_alpha s) = size_of (np_kappa s) \<and>
     size_of (np_beta s) = size_of (np_kappa s)"

definition item :: "ndarray \<Rightarrow> nat \<Rightarrow> f64" where
  "item a i = f64_items a ! i"

definition float_tracks :: "f64 \<Rightarrow> f64 \<Rightarrow> f64 \<Rightarrow> f64 \<Rightarrow> nat \<Rightarrow> np_gaussian \<Rightarrow> bool" where
  "float_tracks k m a b t s \<longleftrightarrow>
     np_kappa0 s = F64 [k] \<and> np_mu0 s = F64 [m] \<and> np_alpha0 s = F64 [a] \<and> np_beta0 s = F64 [b] \<and>
     float_state s \<and> size_of (np_kappa s) = Suc t \<and>
     item (np_kappa s) 0 = k \<and> item (np_mu s) 0 = m \<and> item (np_alpha s) 0 = a \<and>
     item (np_beta s) 0 = b"

fun float_obs :: "f64 \<Rightarrow> observation" where
  "float_obs x = ObsNum (PyFloat x)"

section \<open>Auxiliary facts\<close>

subsection \<open>The model in real arithmetic\<close>

lemma py_bind_Inr [simp]: "py_bind (Inr v) f = f v"
  by (simp add: py_bind_def)

lemma py_bind_Inl [simp]: "py_bind (Inl e) f = Inl e"
  by (simp add: py_bind_def)

lemma np_zip_same: "length xs = length ys \<Longrightarrow> np_zip xs ys = Inr (zip xs ys)"
  by (simp add: np_zip_def)

lemma np_zip_nth:
  "length xs = length ys \<Longrightarrow>
     np_zip xs ys = Inr (map (\<lambda>i. (xs ! i, ys ! i)) [0..<length xs])"
  by (simp add: np_zip_same) (rule nth_equalityI, simp_all)

lemma np_binop_nth:
  "length xs = length ys \<Longrightarrow>
     np_binop f xs ys = Inr (map (\<lambda>i. f (xs ! i) (ys ! i)) [0..<length xs])"
  by (simp add: np_binop_def np_zip_same) (rule nth_equalityI, simp_all)

lemma same_length_lens:
  "same_length s \<Longrightarrow> length (mu s) = length (kappa s)"
  "same_length s \<Longrightarrow> length (alpha s) = length (kappa s)"
  "same_length s \<Longrightarrow> length (beta s) = length (kappa s)"
  by (simp_all add: same_length_def)

lemma update_same_length:
  assumes "same_length s"
  shows "update s x = Inr (s\<lparr>kappa := kappa0 s @ map (\<lambda>k. k + 1) (kappa s),
      mu := mu0 s @ map (\<lambda>i. nf_div (nf_add (nf_mul (Finite (kappa s ! i)) (mu s ! i)) (Finite x))
                                (kappa s ! i + 1)) [0..<length (kappa s)],
      alpha := alpha0 s @ map (\<lambda>a. a + 0.5) (alpha s),
      beta := beta0 s @ map (\<lambda>i. nf_add (beta s ! i)
                (nf_div (nf_mul (Finite (kappa s ! i)) (nf_sq (nf_sub (Finite x) (mu s ! i))))
                   (2 * kappa s ! i + 2))) [0..<length (kappa s)]\<rparr>)"
  unfolding update_def Let_def
  by (simp add: np_binop_nth same_length_lens [OF assms] cong: map_cong)

lemma tracks_Gaussian: "tracks k m a b 0 (Gaussian k m a b)"
  by (simp add: tracks_def Gaussian_def same_length_def)

lemma tracks_same_length: "tracks k m a b t s \<Longrightarrow> same_length s"
  by (simp add: tracks_def)

lemma tracks_update:
  assumes "tracks k m a b t s"
  shows "\<exists>s'. update s x = Inr s' \<and> tracks k m a b (Suc t) s'"
  using assms
  by (simp add: update_same_length [OF tracks_same_length [OF assms]] tracks_def same_length_def)

lemma tracks_updates:
  "tracks k m a b t s \<Longrightarrow> \<exists>s'. updates s xs = Inr s' \<and> tracks k m a b (t + length xs) s'"
proof (induction xs arbitrary: s t)
  case Nil
  then show ?case by simp
next
  case (Cons x xs)
  from tracks_update [OF Cons.prems, of x]
  obtain s1 where s1: "update s x = Inr s1" "tracks k m a b (Suc t) s1" by blast
  from Cons.IH [OF s1(2)] s1(1) show ?case by simp
qed

lemma reachable_tracks:
  "\<exists>s. updates (Gaussian k m a b) xs = Inr s \<and> tracks k m a b (length xs) s"
  using tracks_updates [OF tracks_Gaussian, of k m a b xs] by simp

lemma hd_nth0: "xs \<noteq> [] \<Longrightarrow> xs ! 0 = hd xs"
  by (cases xs) simp_all

lemma t_kernel_pos:
  assumes "0 < df" "0 < sc"
  shows "nf_pos (t_kernel x df (Finite l) (Finite sc))"
proof -
  have "0 \<le> ((x - l) / sc)\<^sup>2 / df"
    using assms(1) by simp
  then have "1 + ((x - l) / sc)\<^sup>2 / df \<noteq> 0"
    by linarith
  then have "0 < (1 + ((x - l) / sc)\<^sup>2 / df) powr (- (df + 1) / 2)"
    by simp
  with assms show ?thesis
    by (simp add: t_kernel_def)
qed

lemma run_pdf_replicate:
  "pdf t_pdf s x = Inr r \<Longrightarrow>
     run t_pdf s (replicate n (Pdf x)) = Inr (replicate n (Densities r), s)"
  by (induction n) simp_all

lemma run_state:
  "run t_pdf s cs = Inr (rs, s') \<Longrightarrow> updates s (observations cs) = Inr s'"
proof (induction cs arbitrary: s rs)
  case Nil
  then show ?case by simp
next
  case (Cons c cs)
  show ?case
  proof (cases c)
    case (Pdf x)
    with Cons.prems obtain r rs' where "pdf t_pdf s x = Inr r" "run t_pdf s cs = Inr (rs', s')"
      by (auto simp add: py_bind_def split: sum.splits)
    with Cons.IH Pdf show ?thesis by simp
  next
    case (Update x)
    with Cons.prems obtain s1 rs' where "update s x = Inr s1" "run t_pdf s1 cs = Inr (rs', s')"
      by (auto simp add: py_bind_def split: sum.splits)
    with Cons.IH Update show ?thesis by simp
  qed
qed

subsection \<open>The model in array arithmetic\<close>

lemma f64_over_gt: "4 < f64_over"
  by (simp add: f64_over_def)

lemma f64_under_pos: "0 < f64_under"
  by (simp add: f64_under_def)

lemma f64_under_lt: "f64_under < 1 / 4"
  by (simp add: f64_under_def)

lemma np_zip_single_r: "np_zip xs [c] = Inr (map (\<lambda>x. (x, c)) xs)"
  by (cases xs; cases "tl xs") (auto simp add: np_zip_def)

lemma np_zip_single_l: "np_zip [c] ys = Inr (map (\<lambda>y. (c, y)) ys)"
  by (cases ys; cases "tl ys") (auto simp add: np_zip_def)

lemma float_array: "dtype_of a = Float64 \<Longrightarrow> a = F64 (f64_items a)"
  by (cases a) simp_all

lemma float_array_size: "dtype_of a = Float64 \<Longrightarrow> length (f64_items a) = size_of a"
  by (cases a) simp_all

lemma np_arith_f64_arr:
  "length xs = length ys \<Longrightarrow>
     np_arith op (F64 xs) (Arr (F64 ys)) =
       Inr (F64 (map (\<lambda>i. f64_arith op (xs ! i) (ys ! i)) [0..<length xs]))"
  by (simp add: np_arith_def elementwise_def np_zip_same) (rule nth_equalityI, simp_all)

lemma np_arith_f64_float:
  "np_arith op (F64 xs) (Scal (PyFloat c)) = Inr (F64 (map (\<lambda>v. f64_arith op v c) xs))"
  by (simp add: np_arith_def elementwise_def np_zip_single_r comp_def)

lemma np_arith_f64_int:
  "\<bar>real_of_int c\<bar> < f64_over \<Longrightarrow>
     np_arith op (F64 xs) (Scal (PyInt c)) =
       Inr (F64 (map (\<lambda>v. f64_arith op v (Num (real_of_int c))) xs))"
  by (simp add: np_arith_def elementwise_def np_zip_single_r comp_def)

lemma np_rarith_f64_float:
  "np_rarith op (Scal (PyFloat c)) (F64 xs) = Inr (F64 (map (\<lambda>v. f64_arith op c v) xs))"
  by (simp add: np_rarith_def elementwise_def np_zip_single_l comp_def)

lemma np_rarith_f64_int:
  "\<bar>real_of_int c\<bar> < f64_over \<Longrightarrow>
     np_rarith op (Scal (PyInt c)) (F64 xs) =
       Inr (F64 (map (\<lambda>v. f64_arith op (Num (real_of_int c)) v) xs))"
  by (simp add: np_rarith_def elementwise_def np_zip_single_l comp_def)

lemma np_concatenate_f64: "np_concatenate (F64 xs) (F64 ys) = F64 (xs @ ys)"
  by (simp add: np_concatenate_def)

lemma np_update_float:
  assumes k0: "np_kappa0 s = F64 k0" and m0: "np_mu0 s = F64 m0"
    and a0: "np_alpha0 s = F64 a0" and b0: "np_beta0 s = F64 b0"
    and k: "np_kappa s = F64 ks" and m: "np_mu s = F64 ms"
    and a: "np_alpha s = F64 as" and b: "np_beta s = F64 bs"
    and len: "length ms = length ks" "length bs = length ks"
  shows "np_update s (ObsNum (PyFloat x)) =
     Inr (s\<lparr>np_kappa := F64 (k0 @ map (\<lambda>v. f64_add v (Num 1)) ks),
            np_mu := F64 (m0 @ map (\<lambda>i. formula_mu x (ks ! i) (ms ! i)) [0..<length ks]),
            np_alpha := F64 (a0 @ map (\<lambda>v. f64_add v (Num 0.5)) as),
            np_beta := F64 (b0 @ map (\<lambda>i. formula_beta x (ks ! i) (ms ! i) (bs ! i))
                                  [0..<length ks])\<rparr>)"
proof -
  have one: "\<bar>real_of_int 1\<bar> < f64_over" "\<bar>real_of_int 2\<bar> < f64_over"
    using f64_over_gt by simp_all
  show ?thesis
    unfolding np_update_def
    by (simp add: k0 m0 a0 b0 k m a b len np_arith_f64_arr np_arith_f64_float
        np_arith_f64_int [OF one(1)] np_arith_f64_int [OF one(2)] np_rarith_f64_int [OF one(2)]
        np_rarith_f64_float np_concatenate_f64 formula_mu_def formula_beta_def f64_sub_def
        cong: map_cong)
qed

lemma np_variance_float:
  assumes k: "np_kappa s = F64 ks" and a: "np_alpha s = F64 as" and b: "np_beta s = F64 bs"
    and len: "length as = length ks" "length bs = length ks"
  shows "np_variance s =
     Inr (F64 (map (\<lambda>i. formula_variance (ks ! i) (as ! i) (bs ! i)) [0..<length ks]))"
proof -
  have one: "\<bar>real_of_int 1\<bar> < f64_over"
    using f64_over_gt by simp
  show ?thesis
    unfolding np_variance_def
    by (simp add: k a b len np_arith_f64_arr np_arith_f64_int [OF one] formula_variance_def
        cong: map_cong)
qed

lemma np_pdf_float:
  assumes k: "np_kappa s = F64 ks" and m: "np_mu s = F64 ms"
    and a: "np_alpha s = F64 as" and b: "np_beta s = F64 bs"
    and len: "length ms = length ks" "length as = length ks" "length bs = length ks"
  shows "np_pdf t_pdf s (ObsNum x) =
     Inr (map (\<lambda>i. t_pdf x (PyFloat (f64_mul (Num 2) (as ! i))) (PyFloat (ms ! i))
                     (PyFloat (f64_sqrt (formula_variance (ks ! i) (as ! i) (bs ! i)))))
            [0..<length ks])"
proof -
  have two: "\<bar>real_of_int 2\<bar> < f64_over"
    using f64_over_gt by simp
  have z: "np_zip (map (\<lambda>y. (x, y)) (map PyFloat (map (f64_mul (Num 2)) as))) (map PyFloat ms) =
      Inr (zip (map (\<lambda>y. (x, y)) (map PyFloat (map (f64_mul (Num 2)) as))) (map PyFloat ms))"
    by (rule np_zip_same) (simp add: len)
  show ?thesis
    unfolding np_pdf_def stats_t_pdf_def
    apply (simp add: np_variance_float [OF k a b len(2,3)] k m a b len
        np_rarith_f64_int [OF two] np_zip_single_l np_zip_same)
    apply (rule nth_equalityI)
     apply (simp_all add: len)
    done
qed

lemma round_exact: "f64_exact r \<Longrightarrow> f64_val (f64_round r) = Some r"
  using f64_over_gt f64_under_pos by (auto simp add: f64_exact_def f64_round_def)

lemma val_cases: "f64_val a = Some r \<Longrightarrow> a = Num r \<or> (a = NegZero \<and> r = 0)"
  by (cases a) auto

lemma val_finite:
  assumes "f64_val a = Some r"
  shows "a \<noteq> NaN" "\<not> f64_inf a" "f64_finite a" "f64_real a = r"
  using val_cases [OF assms] by auto

lemma val_signed_zero [simp]: "f64_val (signed_zero s) = Some 0"
  by (simp add: signed_zero_def)

lemma val_add:
  assumes "f64_val a = Some ra" "f64_val b = Some rb" "f64_exact (ra + rb)"
  shows "f64_val (f64_add a b) = Some (ra + rb)"
proof (cases "a = NegZero \<and> b = NegZero")
  case True
  with assms(1,2) show ?thesis by (simp add: f64_add_def)
next
  case False
  then have "f64_add a b = f64_round (ra + rb)"
    using val_finite [OF assms(1)] val_finite [OF assms(2)] by (auto simp add: f64_add_def)
  with round_exact [OF assms(3)] show ?thesis by simp
qed

lemma val_neg: "f64_val b = Some rb \<Longrightarrow> f64_val (f64_neg b) = Some (- rb)"
  by (auto dest!: val_cases)

lemma val_sub:
  "f64_val a = Some ra \<Longrightarrow> f64_val b = Some rb \<Longrightarrow> f64_exact (ra - rb) \<Longrightarrow>
     f64_val (f64_sub a b) = Some (ra - rb)"
  using val_add [of a ra "f64_neg b" "- rb"] val_neg [of b rb]
  by (simp add: f64_sub_def)

lemma val_mul:
  assumes "f64_val a = Some ra" "f64_val b = Some rb" "f64_exact (ra * rb)"
  shows "f64_val (f64_mul a b) = Some (ra * rb)"
proof (cases "ra * rb = 0")
  case True
  then have "f64_mul a b = signed_zero (f64_sign a \<noteq> f64_sign b)"
    using val_finite [OF assms(1)] val_finite [OF assms(2)] by (simp add: f64_mul_def)
  with True show ?thesis by simp
next
  case False
  then have "f64_mul a b = f64_round (ra * rb)"
    using val_finite [OF assms(1)] val_finite [OF assms(2)] by (simp add: f64_mul_def)
  with round_exact [OF assms(3)] show ?thesis by simp
qed

lemma val_div:
  assumes "f64_val a = Some ra" "f64_val b = Some rb" "rb \<noteq> 0" "f64_exact (ra / rb)"
  shows "f64_val (f64_div a b) = Some (ra / rb)"
proof (cases "ra = 0")
  case True
  then have "f64_div a b = signed_zero (f64_sign a \<noteq> f64_sign b)"
    using val_finite [OF assms(1)] val_finite [OF assms(2)] assms(3)
    by (simp add: f64_div_def f64_zero_def)
  with True show ?thesis by simp
next
  case False
  then have "f64_div a b = f64_round (ra / rb)"
    using val_finite [OF assms(1)] val_finite [OF assms(2)] assms(3)
    by (simp add: f64_div_def f64_zero_def)
  with round_exact [OF assms(4)] show ?thesis by simp
qed

lemma val_sqrt:
  "f64_val a = Some ra \<Longrightarrow> 0 \<le> ra \<Longrightarrow> f64_val (f64_sqrt a) = Some (sqrt ra)"
  by (auto dest!: val_cases)

lemma val_Num [simp]: "f64_val (Num r) = Some r"
  by simp

lemma exact_small: "\<bar>r\<bar> \<le> 2 \<Longrightarrow> 1 / 4 \<le> \<bar>r\<bar> \<Longrightarrow> f64_exact r"
  using f64_over_gt f64_under_lt by (simp add: f64_exact_def)

lemma real_mu:
  assumes "f64_val x = Some rx" "f64_val k = Some rk" "f64_val m = Some rm" "exact_mu rx rk rm"
  shows "f64_val (formula_mu x k m) = Some ((rk * rm + rx) / (rk + 1))"
proof -
  from assms(4) have e: "f64_exact (rk * rm)" "f64_exact (rk * rm + rx)" "f64_exact (rk + 1)"
      "rk + 1 \<noteq> 0" "f64_exact ((rk * rm + rx) / (rk + 1))"
    by (simp_all add: exact_mu_def)
  have "f64_val (f64_add (f64_mul k m) x) = Some (rk * rm + rx)"
    by (rule val_add [OF val_mul [OF assms(2,3) e(1)] assms(1) e(2)])
  moreover have "f64_val (f64_add k (Num 1)) = Some (rk + 1)"
    by (rule val_add [OF assms(2) _ e(3)]) simp
  ultimately show ?thesis
    unfolding formula_mu_def by (rule val_div [OF _ _ e(4,5)])
qed

lemma real_beta:
  assumes "f64_val x = Some rx" "f64_val k = Some rk" "f64_val m = Some rm" "f64_val b = Some rb"
    "exact_beta rx rk rm rb"
  shows "f64_val (formula_beta x k m b) = Some (rb + rk * (rx - rm)\<^sup>2 / (2 * rk + 2))"
proof -
  from assms(5) have e: "f64_exact (rx - rm)" "f64_exact ((rx - rm) * (rx - rm))"
      "f64_exact (rk * ((rx - rm) * (rx - rm)))" "f64_exact (2 * rk)" "f64_exact (2 * rk + 2)"
      "2 * rk + 2 \<noteq> 0" "f64_exact (rk * ((rx - rm) * (rx - rm)) / (2 * rk + 2))"
      "f64_exact (rb + rk * ((rx - rm) * (rx - rm)) / (2 * rk + 2))"
    by (simp_all add: exact_beta_def power2_eq_square)
  have d: "f64_val (f64_sub x m) = Some (rx - rm)"
    by (rule val_sub [OF assms(1,3) e(1)])
  have n: "f64_val (f64_mul k (f64_mul (f64_sub x m) (f64_sub x m))) =
      Some (rk * ((rx - rm) * (rx - rm)))"
    by (rule val_mul [OF assms(2) val_mul [OF d d e(2)] e(3)])
  have "f64_val (f64_mul (Num 2) k) = Some (2 * rk)"
    by (rule val_mul [OF _ assms(2) e(4)]) simp
  then have dn: "f64_val (f64_add (f64_mul (Num 2) k) (Num 2)) = Some (2 * rk + 2)"
    by (rule val_add [OF _ _ e(5)]) simp
  have "f64_val (formula_beta x k m b) = Some (rb + rk * ((rx - rm) * (rx - rm)) / (2 * rk + 2))"
    unfolding formula_beta_def
    by (rule val_add [OF assms(4) val_div [OF n dn e(6,7)] e(8)])
  then show ?thesis
    by (simp add: power2_eq_square)
qed

lemma real_scale:
  assumes "f64_val k = Some rk" "f64_val a = Some ra" "f64_val b = Some rb"
    "exact_variance rk ra rb" "0 \<le> rb * (rk + 1) / (ra * rk)"
  shows "f64_val (f64_sqrt (formula_variance k a b)) = Some (sqrt (rb * (rk + 1) / (ra * rk)))"
proof -
  from assms(4) have e: "f64_exact (rk + 1)" "f64_exact (rb * (rk + 1))" "f64_exact (ra * rk)"
      "ra * rk \<noteq> 0" "f64_exact (rb * (rk + 1) / (ra * rk))"
    by (simp_all add: exact_variance_def)
  have "f64_val (f64_add k (Num 1)) = Some (rk + 1)"
    by (rule val_add [OF assms(1) _ e(1)]) simp
  then have "f64_val (f64_mul b (f64_add k (Num 1))) = Some (rb * (rk + 1))"
    by (rule val_mul [OF assms(3) _ e(2)])
  then have "f64_val (formula_variance k a b) = Some (rb * (rk + 1) / (ra * rk))"
    unfolding formula_variance_def
    by (rule val_div [OF _ val_mul [OF assms(2,1) e(3)] e(4,5)])
  then show ?thesis
    by (rule val_sqrt [OF _ assms(5)])
qed

lemma float_state_update:
  assumes fs: "float_state s"
  shows "np_update s (float_obs x) =
     Inr (s\<lparr>np_kappa := F64 (f64_items (np_kappa0 s) @
                                map (\<lambda>v. f64_add v (Num 1)) (f64_items (np_kappa s))),
            np_mu := F64 (f64_items (np_mu0 s) @
                          map (\<lambda>i. formula_mu x (item (np_kappa s) i) (item (np_mu s) i))
                            [0..<size_of (np_kappa s)]),
            np_alpha := F64 (f64_items (np_alpha0 s) @
                             map (\<lambda>v. f64_add v (Num 0.5)) (f64_items (np_alpha s))),
            np_beta := F64 (f64_items (np_beta0 s) @
                            map (\<lambda>i. formula_beta x (item (np_kappa s) i) (item (np_mu s) i)
                                         (item (np_beta s) i))
                              [0..<size_of (np_kappa s)])\<rparr>)"
proof -
  from fs have d: "dtype_of (np_kappa0 s) = Float64" "dtype_of (np_mu0 s) = Float64"
      "dtype_of (np_alpha0 s) = Float64" "dtype_of (np_beta0 s) = Float64"
      "dtype_of (np_kappa s) = Float64" "dtype_of (np_mu s) = Float64"
      "dtype_of (np_alpha s) = Float64" "dtype_of (np_beta s) = Float64"
    and sz: "size_of (np_mu s) = size_of (np_kappa s)" "size_of (np_beta s) = size_of (np_kappa s)"
    by (simp_all add: float_state_def)
  have len: "length (f64_items (np_mu s)) = length (f64_items (np_kappa s))"
      "length (f64_items (np_beta s)) = length (f64_items (np_kappa s))"
    by (simp_all add: float_array_size d sz)
  have n: "length (f64_items (np_kappa s)) = size_of (np_kappa s)"
    by (simp add: float_array_size d)
  show ?thesis
    using np_update_float [OF float_array [OF d(1)] float_array [OF d(2)] float_array [OF d(3)]
        float_array [OF d(4)] float_array [OF d(5)] float_array [OF d(6)] float_array [OF d(7)]
        float_array [OF d(8)] len, of x]
    by (simp add: item_def n)
qed

lemma float_state_pdf:
  assumes fs: "float_state s"
  shows "np_pdf t_pdf s (ObsNum x) =
     Inr (map (\<lambda>i. t_pdf x (PyFloat (f64_mul (Num 2) (item (np_alpha s) i)))
                     (PyFloat (item (np_mu s) i))
                     (PyFloat (f64_sqrt (formula_variance (item (np_kappa s) i)
                        (item (np_alpha s) i) (item (np_beta s) i)))))
            [0..<size_of (np_kappa s)])"
proof -
  from fs have d: "dtype_of (np_kappa s) = Float64" "dtype_of (np_mu s) = Float64"
      "dtype_of (np_alpha s) = Float64" "dtype_of (np_beta s) = Float64"
    and sz: "size_of (np_mu s) = size_of (np_kappa s)" "size_of (np_alpha s) = size_of (np_kappa s)"
      "size_of (np_beta s) = size_of (np_kappa s)"
    by (simp_all add: float_state_def)
  have len: "length (f64_items (np_mu s)) = length (f64_items (np_kappa s))"
      "length (f64_items (np_alpha s)) = length (f64_items (np_kappa s))"
      "length (f64_items (np_beta s)) = length (f64_items (np_kappa s))"
    by (simp_all add: float_array_size d sz)
  have n: "length (f64_items (np_kappa s)) = size_of (np_kappa s)"
    by (simp add: float_array_size d)
  show ?thesis
    using np_pdf_float [OF float_array [OF d(1)] float_array [OF d(2)] float_array [OF d(3)]
        float_array [OF d(4)] len, of t_pdf x]
    by (simp add: item_def n)
qed

lemma float_tracks_Gaussian:
  "float_tracks k m a b 0 (np_Gaussian (PyFloat k) (PyFloat m) (PyFloat a) (PyFloat b))"
  by (simp add: float_tracks_def float_state_def np_Gaussian_def np_array1_def item_def)

lemma float_tracks_state: "float_tracks k m a b t s \<Longrightarrow> float_state s"
  by (simp add: float_tracks_def)

lemma float_tracks_update:
  assumes "float_tracks k m a b t s"
  shows "\<exists>s'. np_update s (float_obs x) = Inr s' \<and> float_tracks k m a b (Suc t) s'"
proof -
  from assms have fs: "float_state s" by (rule float_tracks_state)
  from fs have d: "dtype_of (np_kappa s) = Float64" "dtype_of (np_alpha s) = Float64"
    and sz: "size_of (np_alpha s) = size_of (np_kappa s)"
    by (simp_all add: float_state_def)
  have len: "length (f64_items (np_kappa s)) = size_of (np_kappa s)"
    "length (f64_items (np_alpha s)) = size_of (np_kappa s)"
    by (simp_all add: float_array_size d sz)
  show ?thesis
    using assms len
    by (simp only: float_state_update [OF fs])
       (simp add: float_tracks_def float_state_def item_def)
qed

lemma float_tracks_updates:
  "float_tracks k m a b t s \<Longrightarrow>
     \<exists>s'. np_updates s (map float_obs xs) = Inr s' \<and> float_tracks k m a b (t + length xs) s'"
proof (induction xs arbitrary: s t)
  case Nil
  then show ?case by simp
next
  case (Cons x xs)
  from float_tracks_update [OF Cons.prems, of x]
  obtain s1 where s1: "np_update s (float_obs x) = Inr s1" "float_tracks k m a b (Suc t) s1"
    by blast
  from Cons.IH [OF s1(2)] s1(1) show ?case by simp
qed

lemma float_reachable:
  "\<exists>s. np_updates (np_Gaussian (PyFloat k) (PyFloat m) (PyFloat a) (PyFloat b)) (map float_obs xs)
         = Inr s \<and> float_tracks k m a b (length xs) s"
  using float_tracks_updates [OF float_tracks_Gaussian, of k m a b xs] by simp

lemmas np_eval = np_Gaussian_def np_update_def np_variance_def np_pdf_def np_array1_def np_arith_def
  np_rarith_def elementwise_def np_zip_def np_concatenate_def wrap_i64_def wrap_u64_def
  f64_add_def f64_sub_def f64_mul_def f64_div_def f64_round_def f64_zero_def signed_zero_def
  signed_inf_def object_arith_def py_arith_def py_truediv_def float_of_int_def stats_t_pdf_def
  f64_over_def f64_under_def

lemma float_state_update_str:
  assumes fs: "float_state s"
  shows "np_update s (ObsStr str) = Inl TypeError"
proof -
  from fs have d: "dtype_of (np_kappa s) = Float64" "dtype_of (np_mu s) = Float64"
    and sz: "size_of (np_mu s) = size_of (np_kappa s)"
    by (simp_all add: float_state_def)
  have len: "length (f64_items (np_mu s)) = length (f64_items (np_kappa s))"
    by (simp add: float_array_size d sz)
  have one: "\<bar>real_of_int 1\<bar> < f64_over"
    using f64_over_gt by simp
  have k: "np_arith Add (np_kappa s) (Scal (PyInt 1)) =
      Inr (F64 (map (\<lambda>v. f64_arith Add v (Num (real_of_int 1))) (f64_items (np_kappa s))))"
    using np_arith_f64_int [OF one, of Add "f64_items (np_kappa s)"] float_array [OF d(1)]
    by simp
  have km: "np_arith Mul (np_kappa s) (Arr (np_mu s)) =
      Inr (F64 (map (\<lambda>i. f64_arith Mul (f64_items (np_kappa s) ! i) (f64_items (np_mu s) ! i))
                  [0..<length (f64_items (np_kappa s))]))"
    using np_arith_f64_arr [OF len [symmetric], of Mul] float_array [OF d(1)] float_array [OF d(2)]
    by simp
  show ?thesis
    unfolding np_update_def
    by (simp only: k km py_bind_Inr as_operand.simps)
       (simp add: np_arith_def)
qed

lemma float_state_pdf_str:
  assumes fs: "float_state s"
  shows "np_pdf t_pdf s (ObsStr str) = Inl TypeError"
proof -
  from fs have d: "dtype_of (np_kappa s) = Float64" "dtype_of (np_alpha s) = Float64"
      "dtype_of (np_beta s) = Float64"
    and sz: "size_of (np_alpha s) = size_of (np_kappa s)" "size_of (np_beta s) = size_of (np_kappa s)"
    by (simp_all add: float_state_def)
  have len: "length (f64_items (np_alpha s)) = length (f64_items (np_kappa s))"
      "length (f64_items (np_beta s)) = length (f64_items (np_kappa s))"
    by (simp_all add: float_array_size d sz)
  have two: "\<bar>real_of_int 2\<bar> < f64_over"
    using f64_over_gt by simp
  have df: "np_rarith Mul (Scal (PyInt 2)) (np_alpha s) =
      Inr (F64 (map (\<lambda>v. f64_arith Mul (Num (real_of_int 2)) v) (f64_items (np_alpha s))))"
    using np_rarith_f64_int [OF two, of Mul "f64_items (np_alpha s)"] float_array [OF d(2)]
    by simp
  show ?thesis
    unfolding np_pdf_def
    by (simp only: np_variance_float [OF float_array [OF d(1)] float_array [OF d(2)]
          float_array [OF d(3)] len] df py_bind_Inr)
       (simp add: stats_t_pdf_def)
qed

section \<open>The claims\<close>










text \<open>
  C6. \<^verbatim>\<open>pdf\<close> is pure. If \<^verbatim>\<open>pdf\<close> returns \<open>r\<close> in a state, the call leaves the
  instance as it was (all eight attributes), and any number \<open>n\<close> of repeated calls
  with the same observation return \<open>r\<close> each time and still leave the instance as it
  was. Moreover the state after any trace of \<^verbatim>\<open>pdf\<close> and \<^verbatim>\<open>update\<close> calls is the
  state after its \<^verbatim>\<open>update\<close> calls alone.
\<close>

theorem pdf_pure:
  "(pdf t_pdf s x = Inr r \<longrightarrow>
      invoke t_pdf s (Pdf x) = Inr (Densities r, s) \<and>
      run t_pdf s (replicate n (Pdf x)) = Inr (replicate n (Densities r), s)) \<and>
   (run t_pdf s cs = Inr (rs, s') \<longrightarrow> updates s (observations cs) = Inr s')"
  using run_pdf_replicate [of t_pdf s x r n] run_state [of t_pdf s cs rs s']
  by simp

theorem pdf_pure_witness:
  "pdf (\<lambda>x df loc scale. (x, df, loc, scale)) (Gaussian 1 0 1 1) 3 =
     Inr [(3, 2, Finite 0, Finite (sqrt 2))] \<and>
   invoke (\<lambda>x df loc scale. (x, df, loc, scale)) (Gaussian 1 0 1 1) (Pdf 3) =
     Inr (Densities [(3, 2, Finite 0, Finite (sqrt 2))], Gaussian 1 0 1 1) \<and>
   run (\<lambda>x df loc scale. (x, df, loc, scale)) (Gaussian 1 0 1 1) [Pdf 3, Pdf 3, Pdf 3] =
     Inr ([Densities [(3, 2, Finite 0, Finite (sqrt 2))],
           Densities [(3, 2, Finite 0, Finite (sqrt 2))],
           Densities [(3, 2, Finite 0, Finite (sqrt 2))]], Gaussian 1 0 1 1) \<and>
   updates (Gaussian 1 0 1 1) [1] =
     Inr \<lparr>kappa0 = [1], mu0 = [Finite 0], alpha0 = [1], beta0 = [Finite 1],
          kappa = [1, 2], mu = [Finite 0, Finite (1 / 2)], alpha = [1, 3 / 2],
          beta = [Finite 1, Finite (5 / 4)]\<rparr>"
proof -
  let ?t = "\<lambda>(x::real) (df::real) (loc::npfloat) (scale::npfloat). (x, df, loc, scale)"
  let ?S = "\<lparr>kappa0 = [1], mu0 = [Finite 0], alpha0 = [1], beta0 = [Finite 1],
          kappa = [1, 2], mu = [Finite 0, Finite (1 / 2)], alpha = [1, 3 / 2],
          beta = [Finite 1, Finite (5 / 4)]\<rparr>"
  have p: "pdf ?t (Gaussian 1 0 1 1) 3 = Inr [(3, 2, Finite 0, Finite (sqrt 2))]"
    by (simp add: pdf_def variance_def Gaussian_def np_binop_def np_zip_def)
  have q: "run ?t (Gaussian 1 0 1 1) [Pdf 3, Update 1, Pdf 3] =
      Inr ([Densities [(3, 2, Finite 0, Finite (sqrt 2))], NoneReply,
            Densities [(3, 2, Finite 0, Finite (sqrt 2)),
                       (3, 3, Finite (1 / 2), Finite (sqrt (5 / 4)))]], ?S)"
    by (simp add: pdf_def variance_def update_def Gaussian_def np_binop_def np_zip_def)
  have e: "replicate 3 (Pdf 3) = [Pdf 3, Pdf 3, Pdf 3]"
    "replicate 3 (Densities [(3::real, 2::real, Finite 0, Finite (sqrt 2))]) =
       [Densities [(3, 2, Finite 0, Finite (sqrt 2))], Densities [(3, 2, Finite 0, Finite (sqrt 2))],
        Densities [(3, 2, Finite 0, Finite (sqrt 2))]]"
    by (simp_all add: numeral_3_eq_3)
  from pdf_pure [of ?t "Gaussian 1 0 1 1" 3 "[(3, 2, Finite 0, Finite (sqrt 2))]" 3
      "[Pdf 3, Update 1, Pdf 3]" _ ?S] p q
  show ?thesis
    by (simp only: e simp_thms observations.simps)
qed

text \<open>
  C7. The concrete scenario. \<^verbatim>\<open>Gaussian(1.0, 0.0, 1.0, 1.0)\<close> holds the priors in
  one-element sequences; after \<^verbatim>\<open>update(0.0)\<close> each sequence has two entries, entry
  0 the prior and entry 1 \<open>kappa = 2\<close>, \<open>mu = 0\<close>, \<open>alpha = 1.5\<close>, \<open>beta = 1\<close>;
  \<^verbatim>\<open>pdf(0.0)\<close> then returns the density at 0 with \<open>(df, loc, scale) = (2, 0, sqrt 2)\<close>
  followed by the density at 0 with \<open>(3, 0, 1)\<close>. Both values are finite and positive
  for every density that is finite and positive wherever \<open>df > 0\<close>, \<open>scale > 0\<close> and
  the location is finite, as Student's t density is.
\<close>

theorem concrete_scenario:
  "Gaussian 1 0 1 1 =
     \<lparr>kappa0 = [1], mu0 = [Finite 0], alpha0 = [1], beta0 = [Finite 1],
      kappa = [1], mu = [Finite 0], alpha = [1], beta = [Finite 1]\<rparr> \<and>
   update (Gaussian 1 0 1 1) 0 =
     Inr \<lparr>kappa0 = [1], mu0 = [Finite 0], alpha0 = [1], beta0 = [Finite 1],
          kappa = [1, 2], mu = [Finite 0, Finite 0], alpha = [1, 1.5],
          beta = [Finite 1, Finite 1]\<rparr> \<and>
   pdf t_pdf \<lparr>kappa0 = [1], mu0 = [Finite 0], alpha0 = [1], beta0 = [Finite 1],
          kappa = [1, 2], mu = [Finite 0, Finite 0], alpha = [1, 1.5],
          beta = [Finite 1, Finite 1]\<rparr> 0 =
     Inr [t_pdf 0 2 (Finite 0) (Finite (sqrt 2)), t_pdf 0 3 (Finite 0) (Finite 1)] \<and>
   ((\<forall>x df loc scale. 0 < df \<and> 0 < scale \<longrightarrow> nf_pos (t_pdf x df (Finite loc) (Finite scale))) \<longrightarrow>
      nf_pos (t_pdf 0 2 (Finite 0) (Finite (sqrt 2))) \<and> nf_pos (t_pdf 0 3 (Finite 0) (Finite 1)))"
proof (intro conjI impI)
  show "Gaussian 1 0 1 1 =
     \<lparr>kappa0 = [1], mu0 = [Finite 0], alpha0 = [1], beta0 = [Finite 1],
      kappa = [1], mu = [Finite 0], alpha = [1], beta = [Finite 1]\<rparr>"
    by (simp add: Gaussian_def)
  show "update (Gaussian 1 0 1 1) 0 =
     Inr \<lparr>kappa0 = [1], mu0 = [Finite 0], alpha0 = [1], beta0 = [Finite 1],
          kappa = [1, 2], mu = [Finite 0, Finite 0], alpha = [1, 1.5],
          beta = [Finite 1, Finite 1]\<rparr>"
    by (simp add: Gaussian_def update_def np_binop_def np_zip_def)
  show "pdf t_pdf \<lparr>kappa0 = [1], mu0 = [Finite 0], alpha0 = [1], beta0 = [Finite 1],
          kappa = [1, 2], mu = [Finite 0, Finite 0], alpha = [1, 1.5],
          beta = [Finite 1, Finite 1]\<rparr> 0 =
     Inr [t_pdf 0 2 (Finite 0) (Finite (sqrt 2)), t_pdf 0 3 (Finite 0) (Finite 1)]"
    by (simp add: pdf_def variance_def np_binop_def np_zip_def)
next
  assume pos: "\<forall>x df loc scale. 0 < df \<and> 0 < scale \<longrightarrow>
      nf_pos (t_pdf x df (Finite loc) (Finite scale))"
  from pos [rule_format, of 2 "sqrt 2" 0 0]
  show "nf_pos (t_pdf 0 2 (Finite 0) (Finite (sqrt 2)))" by simp
  from pos [rule_format, of 3 1 0 0]
  show "nf_pos (t_pdf 0 3 (Finite 0) (Finite 1))" by simp
qed

theorem concrete_scenario_witness:
  "nf_pos (t_kernel 0 2 (Finite 0) (Finite (sqrt 2))) \<and> nf_pos (t_kernel 0 3 (Finite 0) (Finite 1)) \<and>
   pdf t_kernel \<lparr>kappa0 = [1], mu0 = [Finite 0], alpha0 = [1], beta0 = [Finite 1],
          kappa = [1, 2], mu = [Finite 0, Finite 0], alpha = [1, 1.5],
          beta = [Finite 1, Finite 1]\<rparr> 0 =
     Inr [t_kernel 0 2 (Finite 0) (Finite (sqrt 2)), t_kernel 0 3 (Finite 0) (Finite 1)]"
proof -
  have "\<forall>x df loc scale. 0 < df \<and> 0 < scale \<longrightarrow> nf_pos (t_kernel x df (Finite loc) (Finite scale))"
    by (simp add: t_kernel_pos)
  with concrete_scenario [of t_kernel] show ?thesis
    by blast
qed



text \<open>
  C9. Whatever the instance and the observation, \<^verbatim>\<open>pdf\<close> and \<^verbatim>\<open>update\<close> of the
  base class \<^verbatim>\<open>Distribution\<close> raise \<open>NotImplementedError\<close> at the call; no value
  is returned.
\<close>

theorem base_class_not_implemented:
  "Distribution_pdf self observation = Inl NotImplementedError \<and>
   Distribution_update self observation = Inl NotImplementedError"
  by (simp add: Distribution_pdf_def Distribution_update_def)

end
